theory Spec2Isabelle
  imports Main "HOL-Library.Word"
begin

section \<open>Entity model (package database)\<close>

text \<open>
  \<^verbatim>\<open>uuid.UUID\<close> is a \<^verbatim>\<open>[16]byte\<close>, that is 128 bits. The timestamps are \<^verbatim>\<open>int64\<close> Unix
  seconds; the program stores and copies them and never computes with them, so they are
  integers here.
\<close>

type_synonym uuid = "128 word"

record Task =
  ID :: uuid
  Title :: string
  Description :: string
  Completed :: bool
  CreatedAt :: int
  UpdatedAt :: int

text \<open>
  The wire messages of package \<^verbatim>\<open>tasks\<close> (generated from the protobuf schema). Their fields
  are the ones the handlers and \<^verbatim>\<open>ToProto\<close> read and write: \<^verbatim>\<open>CreateTaskRequest\<close> has
  \<^verbatim>\<open>Title\<close> and \<^verbatim>\<open>Description\<close>, \<^verbatim>\<open>UpdateTaskRequest\<close> has in addition \<^verbatim>\<open>Completed\<close> of
  type \<^verbatim>\<open>*bool\<close> (the handler tests it against \<^verbatim>\<open>nil\<close>), and \<^verbatim>\<open>Task\<close> has the six fields
  \<^verbatim>\<open>ToProto\<close> fills in.
\<close>

record Timestamp =
  Seconds :: int
  Nanos :: int

record pb_Task =
  pb_Id :: string
  pb_Title :: string
  pb_Description :: string
  pb_Completed :: bool
  pb_CreatedAt :: Timestamp
  pb_UpdatedAt :: Timestamp

record CreateTaskRequest =
  req_Title :: string
  req_Description :: string

record UpdateTaskRequest =
  upd_Title :: string
  upd_Description :: string
  upd_Completed :: "bool option"

datatype Message = GetTaskResponse pb_Task | ListTasksResponse "pb_Task list"

subsection \<open>Library functions the program is written over\<close>

text \<open>
  Three functions of external libraries are parameters of the model:
  \<^verbatim>\<open>uuid.Parse\<close> and \<^verbatim>\<open>UUID.String\<close> of the uuid library, and the set of messages that
  \<^verbatim>\<open>protojson.Marshal\<close> refuses to encode (it returns an error for them).
\<close>

record Lib =
  uuid_Parse :: "string \<Rightarrow> uuid option"
  uuid_String :: "uuid \<Rightarrow> string"
  Marshal_rejects :: "Message \<Rightarrow> bool"

text \<open>
  \<^verbatim>\<open>time.Unix(s, 0)\<close> followed by \<^verbatim>\<open>timestamppb.New\<close> is the timestamp of \<open>s\<close> seconds and no
  nanoseconds.
\<close>

definition timestamppb_New_Unix :: "int \<Rightarrow> Timestamp" where
  "timestamppb_New_Unix s = \<lparr>Seconds = s, Nanos = 0\<rparr>"

definition ToProto :: "Lib \<Rightarrow> Task \<Rightarrow> pb_Task" where
  "ToProto lib t =
     \<lparr>pb_Id = uuid_String lib (ID t),
      pb_Title = Title t,
      pb_Description = Description t,
      pb_Completed = Completed t,
      pb_CreatedAt = timestamppb_New_Unix (CreatedAt t),
      pb_UpdatedAt = timestamppb_New_Unix (UpdatedAt t)\<rparr>"

section \<open>The document store\<close>

text \<open>
  The collection \<^verbatim>\<open>tasks\<close> behind \<^verbatim>\<open>MongoTaskRepository\<close>: its documents in their natural
  order, keyed by \<^verbatim>\<open>_id\<close>. Every call of the driver may fail for a reason of its own (the
  five-second timeout, a cancelled context, the network); \<open>fails c n\<close> says whether the
  call number \<open>n\<close> of the driver does, and \<open>calls c\<close> counts the calls made so far. A call
  that fails leaves the documents as they are.
\<close>

record Collection =
  docs :: "Task list"
  calls :: nat
  fails :: "nat \<Rightarrow> bool"

datatype driver_error = ErrNoDocuments | DuplicateKey | Unavailable

datatype error = Wrap string driver_error

definition down :: "Collection \<Rightarrow> bool" where
  "down c = fails c (calls c)"

definition tick :: "Collection \<Rightarrow> Collection" where
  "tick c = c\<lparr>calls := Suc (calls c)\<rparr>"

fun update_first :: "uuid \<Rightarrow> (Task \<Rightarrow> Task) \<Rightarrow> Task list \<Rightarrow> Task list" where
  "update_first i f [] = []"
| "update_first i f (d # ds) = (if ID d = i then f d # ds else d # update_first i f ds)"

fun delete_first :: "uuid \<Rightarrow> Task list \<Rightarrow> Task list" where
  "delete_first i [] = []"
| "delete_first i (d # ds) = (if ID d = i then ds else d # delete_first i ds)"

definition InsertOne :: "Collection \<Rightarrow> Task \<Rightarrow> driver_error option \<times> Collection" where
  "InsertOne c t =
     (if down c then (Some Unavailable, tick c)
      else if find (\<lambda>d. ID d = ID t) (docs c) \<noteq> None then (Some DuplicateKey, tick c)
      else (None, tick (c\<lparr>docs := docs c @ [t]\<rparr>)))"

definition FindOne :: "Collection \<Rightarrow> uuid \<Rightarrow> (driver_error + Task) \<times> Collection" where
  "FindOne c i =
     (if down c then (Inl Unavailable, tick c)
      else case find (\<lambda>d. ID d = i) (docs c) of
             None \<Rightarrow> (Inl ErrNoDocuments, tick c)
           | Some d \<Rightarrow> (Inr d, tick c))"

definition Find :: "Collection \<Rightarrow> (driver_error + Task list) \<times> Collection" where
  "Find c = (if down c then (Inl Unavailable, tick c) else (Inr (docs c), tick c))"

definition cursor_All :: "Collection \<Rightarrow> Task list \<Rightarrow> (driver_error + Task list) \<times> Collection" where
  "cursor_All c cursor = (if down c then (Inl Unavailable, tick c) else (Inr cursor, tick c))"

definition UpdateOne :: "Collection \<Rightarrow> uuid \<Rightarrow> (Task \<Rightarrow> Task) \<Rightarrow> driver_error option \<times> Collection" where
  "UpdateOne c i f =
     (if down c then (Some Unavailable, tick c)
      else (None, tick (c\<lparr>docs := update_first i f (docs c)\<rparr>)))"

definition DeleteOne :: "Collection \<Rightarrow> uuid \<Rightarrow> driver_error option \<times> Collection" where
  "DeleteOne c i =
     (if down c then (Some Unavailable, tick c)
      else (None, tick (c\<lparr>docs := delete_first i (docs c)\<rparr>)))"

section \<open>MongoTaskRepository\<close>

definition MongoTaskRepository_Create :: "Collection \<Rightarrow> Task \<Rightarrow> error option \<times> Collection" where
  "MongoTaskRepository_Create c task =
     (case InsertOne c task of
        (Some err, c') \<Rightarrow> (Some (Wrap ''failed to create task'' err), c')
      | (None, c') \<Rightarrow> (None, c'))"

definition MongoTaskRepository_FindByID ::
  "Collection \<Rightarrow> uuid \<Rightarrow> (error + Task option) \<times> Collection" where
  "MongoTaskRepository_FindByID c i =
     (case FindOne c i of
        (Inl err, c') \<Rightarrow>
          (if err = ErrNoDocuments then (Inr None, c')
           else (Inl (Wrap ''failed to find task'' err), c'))
      | (Inr task, c') \<Rightarrow> (Inr (Some task), c'))"

definition MongoTaskRepository_FindAll :: "Collection \<Rightarrow> (error + Task list) \<times> Collection" where
  "MongoTaskRepository_FindAll c =
     (case Find c of
        (Inl err, c') \<Rightarrow> (Inl (Wrap ''failed to find tasks'' err), c')
      | (Inr cursor, c') \<Rightarrow>
          (case cursor_All c' cursor of
             (Inl err, c'') \<Rightarrow> (Inl (Wrap ''failed to decode tasks'' err), c'')
           | (Inr tasks, c'') \<Rightarrow> (Inr tasks, c'')))"

text \<open>The \<^verbatim>\<open>$set\<close> document of \<^verbatim>\<open>Update\<close>: four fields of the stored document are overwritten.\<close>

definition set_fields :: "Task \<Rightarrow> Task \<Rightarrow> Task" where
  "set_fields task d =
     d\<lparr>Title := Title task,
       Description := Description task,
       Completed := Completed task,
       UpdatedAt := UpdatedAt task\<rparr>"

definition MongoTaskRepository_Update ::
  "Collection \<Rightarrow> uuid \<Rightarrow> Task \<Rightarrow> error option \<times> Collection" where
  "MongoTaskRepository_Update c i task =
     (case UpdateOne c i (set_fields task) of
        (Some err, c') \<Rightarrow> (Some (Wrap ''failed to update task'' err), c')
      | (None, c') \<Rightarrow> (None, c'))"

definition MongoTaskRepository_Delete :: "Collection \<Rightarrow> uuid \<Rightarrow> error option \<times> Collection" where
  "MongoTaskRepository_Delete c i =
     (case DeleteOne c i of
        (Some err, c') \<Rightarrow> (Some (Wrap ''failed to delete task'' err), c')
      | (None, c') \<Rightarrow> (None, c'))"

section \<open>Error taxonomy (package errors)\<close>

text \<open>
  Modelled from the spec: package \<^verbatim>\<open>errors\<close> (\<^verbatim>\<open>APIError\<close>, its four constructors and
  \<^verbatim>\<open>RespondWithError\<close>) is not among the sources. The spec fixes the four kinds
  \<^verbatim>\<open>VALIDATION_ERROR\<close>, \<^verbatim>\<open>NOT_FOUND\<close>, \<^verbatim>\<open>BAD_REQUEST\<close>, \<^verbatim>\<open>INTERNAL_ERROR\<close> and the wire shape
  \<^verbatim>\<open>{type, message, details}\<close>, where \<^verbatim>\<open>details\<close> is a list of field diagnostics or a
  free-form object; each constructor builds the error of the kind it is named after, and
  \<^verbatim>\<open>RespondWithError\<close> writes the status it is given with the error as the body.
\<close>

datatype ErrorType = VALIDATION_ERROR | NOT_FOUND | BAD_REQUEST | INTERNAL_ERROR

record ValidationErrorDetail =
  detail_Field :: string
  detail_Message :: string

datatype Details = FieldDetails "ValidationErrorDetail list" | MapDetails "(string \<times> string) list"

record APIError =
  err_Type :: ErrorType
  err_Message :: string
  err_Details :: "Details option"

definition NewValidationError :: "string \<Rightarrow> Details \<Rightarrow> APIError" where
  "NewValidationError msg details =
     \<lparr>err_Type = VALIDATION_ERROR, err_Message = msg, err_Details = Some details\<rparr>"

definition NewNotFoundError :: "string \<Rightarrow> APIError" where
  "NewNotFoundError msg = \<lparr>err_Type = NOT_FOUND, err_Message = msg, err_Details = None\<rparr>"

definition NewBadRequestError :: "string \<Rightarrow> APIError" where
  "NewBadRequestError msg = \<lparr>err_Type = BAD_REQUEST, err_Message = msg, err_Details = None\<rparr>"

definition NewInternalError :: "string \<Rightarrow> APIError" where
  "NewInternalError msg = \<lparr>err_Type = INTERNAL_ERROR, err_Message = msg, err_Details = None\<rparr>"

section \<open>What a handler writes\<close>

text \<open>
  The JSON that \<^verbatim>\<open>protojson.Marshal\<close> writes for the two response messages, as a tree. With
  the default options, which the handlers use, a field that is not populated is left out:
  an empty string, \<^verbatim>\<open>false\<close>, an empty repeated field. The two timestamps of a task are
  message fields that \<^verbatim>\<open>ToProto\<close> always sets; their RFC 3339 text is kept as the pair of
  seconds and nanoseconds.
\<close>

datatype json =
    JString string
  | JBool bool
  | JTimestamp int int
  | JArray "json list"
  | JObject "(string \<times> json) list"

definition marshal_Task :: "pb_Task \<Rightarrow> json" where
  "marshal_Task t =
     JObject
       ((if pb_Id t = [] then [] else [(''id'', JString (pb_Id t))]) @
        (if pb_Title t = [] then [] else [(''title'', JString (pb_Title t))]) @
        (if pb_Description t = [] then [] else [(''description'', JString (pb_Description t))]) @
        (if pb_Completed t then [(''completed'', JBool True)] else []) @
        [(''createdAt'', JTimestamp (Seconds (pb_CreatedAt t)) (Nanos (pb_CreatedAt t))),
         (''updatedAt'', JTimestamp (Seconds (pb_UpdatedAt t)) (Nanos (pb_UpdatedAt t)))])"

definition marshal_Message :: "Message \<Rightarrow> json" where
  "marshal_Message m =
     (case m of
        GetTaskResponse t \<Rightarrow> JObject [(''task'', marshal_Task t)]
      | ListTasksResponse ts \<Rightarrow>
          JObject (if ts = [] then [] else [(''tasks'', JArray (map marshal_Task ts))]))"

definition protojson_Marshal :: "Lib \<Rightarrow> Message \<Rightarrow> json option" where
  "protojson_Marshal lib m = (if Marshal_rejects lib m then None else Some (marshal_Message m))"

text \<open>The members of a JSON object, by name.\<close>

definition member :: "json \<Rightarrow> string \<Rightarrow> json option" where
  "member j name = (case j of JObject ms \<Rightarrow> map_of ms name | _ \<Rightarrow> None)"

datatype Written = Failure APIError | Data json | Nothing

record Response =
  Code :: nat
  Body :: Written

definition RespondWithError :: "nat \<Rightarrow> APIError \<Rightarrow> Response" where
  "RespondWithError status apiErr = \<lparr>Code = status, Body = Failure apiErr\<rparr>"

section \<open>Validation\<close>

subsection \<open>The generated validators\<close>

text \<open>
  Modelled from the spec: the \<^verbatim>\<open>Validate\<close> methods of \<^verbatim>\<open>CreateTaskRequest\<close> and
  \<^verbatim>\<open>UpdateTaskRequest\<close> are generated code that is not among the sources. By the spec the
  title must be non-empty and at most 100 characters, the description at most 500
  characters, on create and on update alike, and \<^verbatim>\<open>completed\<close> is not constrained; a
  failure is a non-empty ordered list of diagnostics, each naming the field and a reason.
  The error text has one line for each diagnostic, in the form that
  \<^verbatim>\<open>convertValidationError\<close> reads: \<^verbatim>\<open>invalid <Message>.<Field>: <reason>\<close>. The result is
  the error text, or \<open>None\<close> for \<^verbatim>\<open>nil\<close>.
\<close>

definition newline :: char where
  "newline = CHR 0x0A"

definition violation :: "string \<Rightarrow> string \<Rightarrow> string \<Rightarrow> string" where
  "violation msg field reason = ''invalid '' @ msg @ ''.'' @ field @ '': '' @ reason"

definition field_violations :: "string \<Rightarrow> string \<Rightarrow> string \<Rightarrow> string list" where
  "field_violations msg title description =
     (if length title < 1 \<or> 100 < length title
      then [violation msg ''Title'' ''value length must be between 1 and 100 characters'']
      else []) @
     (if 500 < length description
      then [violation msg ''Description'' ''value length must be at most 500 characters'']
      else [])"

fun join_lines :: "string list \<Rightarrow> string" where
  "join_lines [] = []"
| "join_lines [l] = l"
| "join_lines (l # ls) = l @ newline # join_lines ls"

definition validation_error :: "string list \<Rightarrow> string option" where
  "validation_error vs = (if vs = [] then None else Some (join_lines vs))"

definition CreateTaskRequest_Validate :: "CreateTaskRequest \<Rightarrow> string option" where
  "CreateTaskRequest_Validate req =
     validation_error (field_violations ''CreateTaskRequest'' (req_Title req) (req_Description req))"

definition UpdateTaskRequest_Validate :: "UpdateTaskRequest \<Rightarrow> string option" where
  "UpdateTaskRequest_Validate req =
     validation_error (field_violations ''UpdateTaskRequest'' (upd_Title req) (upd_Description req))"

subsection \<open>convertValidationError\<close>

text \<open>
  The functions of package \<^verbatim>\<open>strings\<close> that \<^verbatim>\<open>convertValidationError\<close> calls, on strings
  as lists of bytes. \<^verbatim>\<open>TrimSpace\<close> is modelled for the ASCII white space.
\<close>

fun Split :: "char \<Rightarrow> string \<Rightarrow> string list" where
  "Split sep [] = [[]]"
| "Split sep (x # xs) =
     (if x = sep then [] # Split sep xs
      else (case Split sep xs of [] \<Rightarrow> [[x]] | w # ws \<Rightarrow> (x # w) # ws))"

definition SplitN2 :: "char \<Rightarrow> string \<Rightarrow> string list" where
  "SplitN2 sep s =
     (if sep \<in> set s
      then [takeWhile (\<lambda>x. x \<noteq> sep) s, tl (dropWhile (\<lambda>x. x \<noteq> sep) s)]
      else [s])"

definition isSpace :: "char \<Rightarrow> bool" where
  "isSpace x = ((of_char x :: nat) \<in> {9, 10, 11, 12, 13, 32})"

definition TrimSpace :: "string \<Rightarrow> string" where
  "TrimSpace s = rev (dropWhile isSpace (rev (dropWhile isSpace s)))"

definition HasPrefix :: "string \<Rightarrow> string \<Rightarrow> bool" where
  "HasPrefix s p = (take (length p) s = p)"

definition TrimPrefix :: "string \<Rightarrow> string \<Rightarrow> string" where
  "TrimPrefix s p = (if HasPrefix s p then drop (length p) s else s)"

text \<open>The loop over the lines of the error text; \<open>details\<close> is the slice built so far.\<close>

fun collect_details ::
  "string list \<Rightarrow> ValidationErrorDetail list \<Rightarrow> ValidationErrorDetail list" where
  "collect_details [] details = details"
| "collect_details (l # ls) details =
     (let line = TrimSpace l in
      if line = [] then collect_details ls details
      else if HasPrefix line ''invalid '' then
        (let parts = SplitN2 (CHR '':'') line in
         if length parts = 2 then
           (let fieldPart = TrimPrefix (parts ! 0) ''invalid '';
                fieldParts = Split (CHR ''.'') fieldPart;
                fieldName = (if 1 < length fieldParts then fieldParts ! (length fieldParts - 1)
                             else fieldPart);
                message = TrimSpace (parts ! 1)
            in collect_details ls
                 (details @ [\<lparr>detail_Field = fieldName, detail_Message = message\<rparr>]))
         else collect_details ls details)
      else collect_details ls details)"

definition convertValidationError :: "string \<Rightarrow> APIError" where
  "convertValidationError errorMsg =
     (let lines = Split newline errorMsg;
          details = collect_details lines []
      in if length details = 0
         then NewValidationError ''Validation failed'' (MapDetails [(''error'', errorMsg)])
         else NewValidationError ''Validation failed'' (FieldDetails details))"

section \<open>Request handlers (package handlers)\<close>

subsection \<open>What a handler reads\<close>

text \<open>
  The body of a request, as \<^verbatim>\<open>io.ReadAll\<close> and \<^verbatim>\<open>protojson.Unmarshal\<close> see it: reading it
  fails, or it is not JSON that the request message accepts, or it is a JSON object in
  which each field of the message is present with a value or absent. The decoded message
  starts from the zero value (\<^verbatim>\<open>var req\<close>), so an absent string field is the empty string and
  an absent \<^verbatim>\<open>completed\<close> is \<^verbatim>\<open>nil\<close>.
\<close>

datatype 'f RequestBody = Unreadable | Malformed | Object 'f

record CreateFields =
  json_title :: "string option"
  json_description :: "string option"

record UpdateFields = CreateFields +
  json_completed :: "bool option"

definition string_field :: "string option \<Rightarrow> string" where
  "string_field v = (case v of None \<Rightarrow> [] | Some s \<Rightarrow> s)"

definition Unmarshal_CreateTaskRequest :: "CreateFields \<Rightarrow> CreateTaskRequest" where
  "Unmarshal_CreateTaskRequest f =
     \<lparr>req_Title = string_field (json_title f),
      req_Description = string_field (json_description f)\<rparr>"

definition Unmarshal_UpdateTaskRequest :: "UpdateFields \<Rightarrow> UpdateTaskRequest" where
  "Unmarshal_UpdateTaskRequest f =
     \<lparr>upd_Title = string_field (json_title f),
      upd_Description = string_field (json_description f),
      upd_Completed = json_completed f\<rparr>"

text \<open>
  What a handler reads from its surroundings while it runs: the clock
  (\<^verbatim>\<open>timestamppb.Now().AsTime().Unix()\<close>) and the identifier that \<^verbatim>\<open>uuid.New()\<close> returns.
\<close>

record Env =
  Now :: int
  NewUUID :: uuid

text \<open>
  Modelled from the spec: \<^verbatim>\<open>helpers.Map\<close> is not among the sources; the list response
  carries the sequence of the stored tasks, each projected to its wire form.
\<close>

definition helpers_Map :: "'a list \<Rightarrow> ('a \<Rightarrow> 'b) \<Rightarrow> 'b list" where
  "helpers_Map ts f = map f ts"

subsection \<open>The five handlers\<close>

text \<open>
  A handler takes the collection and returns the response it writes and the collection
  afterwards. A response written without \<^verbatim>\<open>WriteHeader\<close> has status 200.
\<close>

definition TaskHandler_GetAll :: "Lib \<Rightarrow> Collection \<Rightarrow> Response \<times> Collection" where
  "TaskHandler_GetAll lib c =
     (case MongoTaskRepository_FindAll c of
        (Inl err, c') \<Rightarrow>
          (RespondWithError 500 (NewInternalError ''Failed to retrieve tasks''), c')
      | (Inr taskList, c') \<Rightarrow>
          (case protojson_Marshal lib (ListTasksResponse (helpers_Map taskList (ToProto lib))) of
             None \<Rightarrow> (RespondWithError 500 (NewInternalError ''Failed to encode response''), c')
           | Some data \<Rightarrow> (\<lparr>Code = 200, Body = Data data\<rparr>, c')))"

definition TaskHandler_Create ::
  "Lib \<Rightarrow> Env \<Rightarrow> CreateFields RequestBody \<Rightarrow> Collection \<Rightarrow> Response \<times> Collection" where
  "TaskHandler_Create lib env body c =
     (case body of
        Unreadable \<Rightarrow>
          (RespondWithError 400 (NewBadRequestError ''Failed to read request body''), c)
      | Malformed \<Rightarrow> (RespondWithError 400 (NewBadRequestError ''Invalid JSON format''), c)
      | Object obj \<Rightarrow>
          (let req = Unmarshal_CreateTaskRequest obj in
           case CreateTaskRequest_Validate req of
             Some err \<Rightarrow> (RespondWithError 400 (convertValidationError err), c)
           | None \<Rightarrow>
               (let now = Now env;
                    taskID = NewUUID env;
                    taskDb = \<lparr>ID = taskID, Title = req_Title req,
                              Description = req_Description req, Completed = False,
                              CreatedAt = now, UpdatedAt = now\<rparr>
                in case MongoTaskRepository_Create c taskDb of
                     (Some err, c') \<Rightarrow>
                       (RespondWithError 500 (NewInternalError ''Failed to create task''), c')
                   | (None, c') \<Rightarrow>
                       (case protojson_Marshal lib (GetTaskResponse (ToProto lib taskDb)) of
                          None \<Rightarrow>
                            (RespondWithError 500
                               (NewInternalError ''Failed to encode response''), c')
                        | Some data \<Rightarrow> (\<lparr>Code = 201, Body = Data data\<rparr>, c')))))"

definition TaskHandler_GetByID :: "Lib \<Rightarrow> string \<Rightarrow> Collection \<Rightarrow> Response \<times> Collection" where
  "TaskHandler_GetByID lib idStr c =
     (case uuid_Parse lib idStr of
        None \<Rightarrow> (RespondWithError 400 (NewBadRequestError ''Invalid task ID format''), c)
      | Some i \<Rightarrow>
          (case MongoTaskRepository_FindByID c i of
             (Inl err, c') \<Rightarrow>
               (RespondWithError 500 (NewInternalError ''Failed to retrieve task''), c')
           | (Inr None, c') \<Rightarrow> (RespondWithError 404 (NewNotFoundError ''Task not found''), c')
           | (Inr (Some taskDb), c') \<Rightarrow>
               (case protojson_Marshal lib (GetTaskResponse (ToProto lib taskDb)) of
                  None \<Rightarrow>
                    (RespondWithError 500 (NewInternalError ''Failed to encode response''), c')
                | Some data \<Rightarrow> (\<lparr>Code = 200, Body = Data data\<rparr>, c'))))"

definition TaskHandler_Update ::
  "Lib \<Rightarrow> Env \<Rightarrow> string \<Rightarrow> UpdateFields RequestBody \<Rightarrow> Collection \<Rightarrow> Response \<times> Collection"
  where
  "TaskHandler_Update lib env idStr body c =
     (case uuid_Parse lib idStr of
        None \<Rightarrow> (RespondWithError 400 (NewBadRequestError ''Invalid task ID format''), c)
      | Some i \<Rightarrow>
          (case body of
             Unreadable \<Rightarrow>
               (RespondWithError 400 (NewBadRequestError ''Failed to read request body''), c)
           | Malformed \<Rightarrow>
               (RespondWithError 400 (NewBadRequestError ''Invalid JSON format''), c)
           | Object obj \<Rightarrow>
               (let req = Unmarshal_UpdateTaskRequest obj in
                case UpdateTaskRequest_Validate req of
                  Some err \<Rightarrow> (RespondWithError 400 (convertValidationError err), c)
                | None \<Rightarrow>
                    (case MongoTaskRepository_FindByID c i of
                       (Inl err, c') \<Rightarrow>
                         (RespondWithError 500
                            (NewInternalError ''Failed to retrieve task''), c')
                     | (Inr None, c') \<Rightarrow>
                         (RespondWithError 404 (NewNotFoundError ''Task not found''), c')
                     | (Inr (Some task0), c') \<Rightarrow>
                         (let task1 = task0\<lparr>Title := upd_Title req,
                                             Description := upd_Description req\<rparr>;
                              task2 = (case upd_Completed req of
                                         None \<Rightarrow> task1
                                       | Some b \<Rightarrow> task1\<lparr>Completed := b\<rparr>);
                              task = task2\<lparr>UpdatedAt := Now env\<rparr>
                          in case MongoTaskRepository_Update c' i task of
                               (Some err, c'') \<Rightarrow>
                                 (RespondWithError 500
                                    (NewInternalError ''Failed to update task''), c'')
                             | (None, c'') \<Rightarrow>
                                 (case protojson_Marshal lib
                                         (GetTaskResponse (ToProto lib task)) of
                                    None \<Rightarrow>
                                      (RespondWithError 500
                                         (NewInternalError ''Failed to encode response''), c'')
                                  | Some data \<Rightarrow>
                                      (\<lparr>Code = 200, Body = Data data\<rparr>, c'')))))))"

definition TaskHandler_Delete :: "Lib \<Rightarrow> string \<Rightarrow> Collection \<Rightarrow> Response \<times> Collection" where
  "TaskHandler_Delete lib idStr c =
     (case uuid_Parse lib idStr of
        None \<Rightarrow> (RespondWithError 400 (NewBadRequestError ''Invalid task ID format''), c)
      | Some i \<Rightarrow>
          (case MongoTaskRepository_Delete c i of
             (Some err, c') \<Rightarrow>
               (RespondWithError 500 (NewInternalError ''Failed to delete task''), c')
           | (None, c') \<Rightarrow> (\<lparr>Code = 204, Body = Nothing\<rparr>, c')))"

subsection \<open>The routes\<close>

text \<open>
  The route table of \<^verbatim>\<open>main\<close>: each request under \<^verbatim>\<open>/api/v1/tasks\<close> goes to one handler.
  A run serves a list of requests one after the other, each with what the handler reads
  from its surroundings, and returns the collection at the end.
\<close>

datatype Request =
    GET_tasks
  | POST_tasks "CreateFields RequestBody"
  | GET_task string
  | PUT_task string "UpdateFields RequestBody"
  | DELETE_task string

fun serve :: "Lib \<Rightarrow> Env \<Rightarrow> Request \<Rightarrow> Collection \<Rightarrow> Response \<times> Collection" where
  "serve lib env GET_tasks c = TaskHandler_GetAll lib c"
| "serve lib env (POST_tasks body) c = TaskHandler_Create lib env body c"
| "serve lib env (GET_task idStr) c = TaskHandler_GetByID lib idStr c"
| "serve lib env (PUT_task idStr body) c = TaskHandler_Update lib env idStr body c"
| "serve lib env (DELETE_task idStr) c = TaskHandler_Delete lib idStr c"

fun run :: "Lib \<Rightarrow> (Env \<times> Request) list \<Rightarrow> Collection \<Rightarrow> Collection" where
  "run lib [] c = c"
| "run lib ((env, r) # rs) c = run lib rs (snd (serve lib env r c))"

section \<open>Concrete inputs\<close>

text \<open>
  The task and the identifier that the tests of the handlers store before a request, a
  collection that holds it, an empty collection, and a stand-in for the uuid library that
  knows this one identifier. The driver never fails in these collections and every message
  can be encoded.
\<close>

definition test_id :: uuid where
  "test_id = 0x550e8400e29b41d4a716446655440000"

definition test_id_text :: string where
  "test_id_text = ''550e8400-e29b-41d4-a716-446655440000''"

definition test_lib :: Lib where
  "test_lib =
     \<lparr>uuid_Parse = (\<lambda>s. if s = test_id_text then Some test_id else None),
      uuid_String = (\<lambda>u. if u = test_id then test_id_text else ''00000000-0000-0000-0000-000000000000''),
      Marshal_rejects = (\<lambda>m. False)\<rparr>"

definition never_fails :: "nat \<Rightarrow> bool" where
  "never_fails n = False"

definition test_task :: Task where
  "test_task =
     \<lparr>ID = test_id, Title = ''Test Task'', Description = ''Test Description'',
      Completed = False, CreatedAt = 1234567890, UpdatedAt = 1234567890\<rparr>"

definition empty_store :: Collection where
  "empty_store = \<lparr>docs = [], calls = 0, fails = never_fails\<rparr>"

definition test_store :: Collection where
  "test_store = \<lparr>docs = [test_task], calls = 0, fails = never_fails\<rparr>"

definition test_env :: Env where
  "test_env = \<lparr>Now = 1763028000, NewUUID = test_id\<rparr>"

definition create_body :: "CreateFields RequestBody" where
  "create_body = Object \<lparr>json_title = Some ''New Task'', json_description = Some ''New Description''\<rparr>"

definition update_body :: "UpdateFields RequestBody" where
  "update_body =
     Object \<lparr>json_title = Some ''Task to Complete'', json_description = Some ''Description'',
             json_completed = Some True\<rparr>"

section \<open>Facts about the documents\<close>

lemma find_None_iff_all: "(find (\<lambda>d. ID d = i) ds = None) = (\<forall>d\<in>set ds. ID d \<noteq> i)"
  by (induction ds) auto

lemma update_first_no_match: "find (\<lambda>d. ID d = i) ds = None \<Longrightarrow> update_first i f ds = ds"
  by (induction ds) (auto split: if_splits)

lemma delete_first_no_match: "find (\<lambda>d. ID d = i) ds = None \<Longrightarrow> delete_first i ds = ds"
  by (induction ds) (auto split: if_splits)

lemma map_ID_update_first: "map ID (update_first i (set_fields task) ds) = map ID ds"
  by (induction ds) (auto simp: set_fields_def)

lemma map_CreatedAt_update_first:
  "map CreatedAt (update_first i (set_fields task) ds) = map CreatedAt ds"
  by (induction ds) (auto simp: set_fields_def)

lemma find_update_first:
  "find (\<lambda>d. ID d = i) ds = Some old \<Longrightarrow>
   find (\<lambda>d. ID d = i) (update_first i (set_fields task) ds) = Some (set_fields task old)"
  by (induction ds) (auto simp: set_fields_def split: if_splits)

lemma find_append_new:
  "find (\<lambda>d. ID d = ID t) ds = None \<Longrightarrow> find (\<lambda>d. ID d = ID t) (ds @ [t]) = Some t"
  by (induction ds) (auto split: if_splits)

section \<open>Facts about the repository\<close>

lemma FindByID_eq:
  "MongoTaskRepository_FindByID c i =
     (if fails c (calls c) then (Inl (Wrap ''failed to find task'' Unavailable), tick c)
      else (Inr (find (\<lambda>d. ID d = i) (docs c)), tick c))"
  by (simp add: MongoTaskRepository_FindByID_def FindOne_def down_def split: option.splits)

lemma Update_eq:
  "MongoTaskRepository_Update c i task =
     (if fails c (calls c) then (Some (Wrap ''failed to update task'' Unavailable), tick c)
      else (None, tick (c\<lparr>docs := update_first i (set_fields task) (docs c)\<rparr>)))"
  by (simp add: MongoTaskRepository_Update_def UpdateOne_def down_def)

lemma Delete_eq:
  "MongoTaskRepository_Delete c i =
     (if fails c (calls c) then (Some (Wrap ''failed to delete task'' Unavailable), tick c)
      else (None, tick (c\<lparr>docs := delete_first i (docs c)\<rparr>)))"
  by (simp add: MongoTaskRepository_Delete_def DeleteOne_def down_def)

lemma FindAll_eq:
  "MongoTaskRepository_FindAll c =
     (if fails c (calls c) then (Inl (Wrap ''failed to find tasks'' Unavailable), tick c)
      else if fails c (Suc (calls c))
      then (Inl (Wrap ''failed to decode tasks'' Unavailable), tick (tick c))
      else (Inr (docs c), tick (tick c)))"
  by (simp add: MongoTaskRepository_FindAll_def Find_def cursor_All_def down_def tick_def)

lemma tick_simps [simp]:
  "docs (tick c) = docs c" "calls (tick c) = Suc (calls c)" "fails (tick c) = fails c"
  by (simp_all add: tick_def)

section \<open>Facts about validation\<close>

lemma validation_error_None_iff:
  "(validation_error (field_violations m t d) = None) =
   (1 \<le> length t \<and> length t \<le> 100 \<and> length d \<le> 500)"
  by (cases t) (auto simp: validation_error_def field_violations_def)

lemma convertValidationError_Type: "err_Type (convertValidationError e) = VALIDATION_ERROR"
  by (simp add: convertValidationError_def Let_def NewValidationError_def)

section \<open>The repository on an identifier that is not stored\<close>

text \<open>
  C3. For every identifier that no stored document has, \<^verbatim>\<open>Update\<close> and \<^verbatim>\<open>Delete\<close> of the
  repository return no error when the call of the driver itself goes through, and all
  they change in the collection is the count of the calls: the documents are the ones
  that were there before.
\<close>

theorem Update_Delete_missing_id:
  assumes "\<forall>d\<in>set (docs c). ID d \<noteq> i" and "\<not> fails c (calls c)"
  shows "MongoTaskRepository_Update c i task = (None, tick c) \<and>
         MongoTaskRepository_Delete c i = (None, tick c) \<and>
         docs (tick c) = docs c"
proof -
  from assms(1) have nf: "find (\<lambda>d. ID d = i) (docs c) = None"
    by (simp add: find_None_iff_all)
  have "MongoTaskRepository_Update c i task = (None, tick c)"
    using assms(2) nf
    by (simp add: MongoTaskRepository_Update_def UpdateOne_def down_def update_first_no_match)
  moreover have "MongoTaskRepository_Delete c i = (None, tick c)"
    using assms(2) nf
    by (simp add: MongoTaskRepository_Delete_def DeleteOne_def down_def delete_first_no_match)
  moreover have "docs (tick c) = docs c"
    by (simp add: tick_def)
  ultimately show ?thesis by simp
qed

theorem Update_Delete_missing_id_witness:
  "MongoTaskRepository_Update test_store 7 test_task = (None, tick test_store) \<and>
   MongoTaskRepository_Delete test_store 7 = (None, tick test_store) \<and>
   docs (tick test_store) = [test_task]"
  using Update_Delete_missing_id [of test_store 7 test_task]
  by (simp add: test_store_def test_task_def test_id_def never_fails_def tick_def)

section \<open>Create\<close>

text \<open>
  What \<^verbatim>\<open>Create\<close> does with a body that decodes to a request the validator accepts: one
  call of the repository, then the encoding of the response.
\<close>

lemma Create_accepted:
  assumes "CreateTaskRequest_Validate (Unmarshal_CreateTaskRequest obj) = None"
  shows "TaskHandler_Create lib env (Object obj) c =
    (let req = Unmarshal_CreateTaskRequest obj;
         taskDb = \<lparr>ID = NewUUID env, Title = req_Title req, Description = req_Description req,
                   Completed = False, CreatedAt = Now env, UpdatedAt = Now env\<rparr>
     in if fails c (calls c) \<or> find (\<lambda>d. ID d = NewUUID env) (docs c) \<noteq> None
        then (RespondWithError 500 (NewInternalError ''Failed to create task''), tick c)
        else if Marshal_rejects lib (GetTaskResponse (ToProto lib taskDb))
        then (RespondWithError 500 (NewInternalError ''Failed to encode response''),
              tick (c\<lparr>docs := docs c @ [taskDb]\<rparr>))
        else (\<lparr>Code = 201, Body = Data (marshal_Message (GetTaskResponse (ToProto lib taskDb)))\<rparr>,
              tick (c\<lparr>docs := docs c @ [taskDb]\<rparr>)))"
  using assms
  by (simp add: TaskHandler_Create_def Let_def MongoTaskRepository_Create_def InsertOne_def
      down_def protojson_Marshal_def)

text \<open>
  C1. A create request whose title has 1 to 100 characters and whose description has at
  most 500 is answered with 201: the handler stores one new task and returns its wire
  form. The task's identifier is the one \<^verbatim>\<open>uuid.New()\<close> returned for this request, its
  \<^verbatim>\<open>completed\<close> is false, and its \<^verbatim>\<open>createdAt\<close> and \<^verbatim>\<open>updatedAt\<close> are both the one reading of
  the clock. This is the case where the insert goes through (the driver call does not
  fail and no stored document has the new identifier) and the response can be encoded.
\<close>

theorem Create_valid_request:
  assumes "req = Unmarshal_CreateTaskRequest obj"
    and "1 \<le> length (req_Title req)" and "length (req_Title req) \<le> 100"
    and "length (req_Description req) \<le> 500"
    and "task = \<lparr>ID = NewUUID env, Title = req_Title req, Description = req_Description req,
                  Completed = False, CreatedAt = Now env, UpdatedAt = Now env\<rparr>"
    and "\<not> fails c (calls c)"
    and "\<forall>d\<in>set (docs c). ID d \<noteq> NewUUID env"
    and "\<not> Marshal_rejects lib (GetTaskResponse (ToProto lib task))"
  shows "TaskHandler_Create lib env (Object obj) c =
           (\<lparr>Code = 201, Body = Data (marshal_Message (GetTaskResponse (ToProto lib task)))\<rparr>,
            tick (c\<lparr>docs := docs c @ [task]\<rparr>)) \<and>
         find (\<lambda>d. ID d = NewUUID env) (docs c @ [task]) = Some task \<and>
         ID task = NewUUID env \<and> Completed task = False \<and> CreatedAt task = UpdatedAt task \<and>
         pb_Id (ToProto lib task) = uuid_String lib (NewUUID env) \<and>
         pb_Completed (ToProto lib task) = False \<and>
         pb_CreatedAt (ToProto lib task) = pb_UpdatedAt (ToProto lib task)"
proof -
  have ok: "CreateTaskRequest_Validate (Unmarshal_CreateTaskRequest obj) = None"
    using assms(1-4) by (simp add: CreateTaskRequest_Validate_def validation_error_None_iff)
  have nf: "find (\<lambda>d. ID d = NewUUID env) (docs c) = None"
    using assms(7) by (simp add: find_None_iff_all)
  have "TaskHandler_Create lib env (Object obj) c =
           (\<lparr>Code = 201, Body = Data (marshal_Message (GetTaskResponse (ToProto lib task)))\<rparr>,
            tick (c\<lparr>docs := docs c @ [task]\<rparr>))"
    using assms(1,5,6,8) nf by (simp add: Create_accepted [OF ok] Let_def)
  moreover have "find (\<lambda>d. ID d = NewUUID env) (docs c @ [task]) = Some task"
    using find_append_new [of task "docs c"] nf assms(5) by simp
  moreover have "ID task = NewUUID env \<and> Completed task = False \<and> CreatedAt task = UpdatedAt task"
    using assms(5) by simp
  moreover have "pb_Id (ToProto lib task) = uuid_String lib (NewUUID env) \<and>
         pb_Completed (ToProto lib task) = False \<and>
         pb_CreatedAt (ToProto lib task) = pb_UpdatedAt (ToProto lib task)"
    using assms(5) by (simp add: ToProto_def)
  ultimately show ?thesis by simp
qed

theorem Create_valid_request_witness:
  "TaskHandler_Create test_lib test_env create_body empty_store =
     (\<lparr>Code = 201,
       Body = Data (JObject [(''task'', JObject
                [(''id'', JString test_id_text), (''title'', JString ''New Task''),
                 (''description'', JString ''New Description''),
                 (''createdAt'', JTimestamp 1763028000 0),
                 (''updatedAt'', JTimestamp 1763028000 0)])])\<rparr>,
      \<lparr>docs = [\<lparr>ID = test_id, Title = ''New Task'', Description = ''New Description'',
                Completed = False, CreatedAt = 1763028000, UpdatedAt = 1763028000\<rparr>],
       calls = 1, fails = never_fails\<rparr>)"
  using Create_valid_request [where lib = test_lib and env = test_env and c = empty_store
      and obj = "\<lparr>json_title = Some ''New Task'', json_description = Some ''New Description''\<rparr>",
      OF refl _ _ _ refl]
  by (simp add: create_body_def empty_store_def test_env_def test_lib_def never_fails_def
      Unmarshal_CreateTaskRequest_def string_field_def tick_def ToProto_def
      marshal_Message_def marshal_Task_def timestamppb_New_Unix_def test_id_text_def)

text \<open>
  C2. A create request with an empty title, a title of more than 100 characters or a
  description of more than 500 characters is answered with 400 and an error of kind
  \<^verbatim>\<open>VALIDATION_ERROR\<close>. The collection afterwards is the collection before, with the same
  count of calls: no operation of the repository has run. The response is the same
  whatever the collection, the clock, the new identifier and the libraries are.
\<close>

theorem Create_invalid_request:
  assumes "req = Unmarshal_CreateTaskRequest obj"
    and "req_Title req = [] \<or> 100 < length (req_Title req) \<or> 500 < length (req_Description req)"
  shows "\<exists>e. TaskHandler_Create lib env (Object obj) c = (\<lparr>Code = 400, Body = Failure e\<rparr>, c) \<and>
             err_Type e = VALIDATION_ERROR \<and>
             fst (TaskHandler_Create lib' env' (Object obj) c') = \<lparr>Code = 400, Body = Failure e\<rparr>"
proof -
  have "CreateTaskRequest_Validate req \<noteq> None"
    using assms(2) by (auto simp: CreateTaskRequest_Validate_def validation_error_None_iff)
  then obtain msg where msg: "CreateTaskRequest_Validate req = Some msg" by auto
  have "\<And>l v k. TaskHandler_Create l v (Object obj) k =
      (\<lparr>Code = 400, Body = Failure (convertValidationError msg)\<rparr>, k)"
    using msg assms(1) by (simp add: TaskHandler_Create_def Let_def RespondWithError_def)
  then show ?thesis
    using convertValidationError_Type [of msg] by simp
qed

theorem Create_invalid_request_witness:
  "TaskHandler_Create test_lib test_env
       (Object \<lparr>json_title = None, json_description = Some ''x''\<rparr>) test_store =
     (\<lparr>Code = 400,
       Body = Failure \<lparr>err_Type = VALIDATION_ERROR, err_Message = ''Validation failed'',
                err_Details = Some (FieldDetails
                  [\<lparr>detail_Field = ''Title'',
                    detail_Message = ''value length must be between 1 and 100 characters''\<rparr>])\<rparr>\<rparr>,
      test_store)"
  using Create_invalid_request [where lib = test_lib and env = test_env and c = test_store
      and obj = "\<lparr>json_title = None, json_description = Some ''x''\<rparr>", OF refl]
  by (simp add: TaskHandler_Create_def Unmarshal_CreateTaskRequest_def string_field_def
      CreateTaskRequest_Validate_def validation_error_def field_violations_def violation_def
      RespondWithError_def convertValidationError_def NewValidationError_def Let_def
      newline_def SplitN2_def TrimSpace_def TrimPrefix_def HasPrefix_def isSpace_def)

section \<open>An identifier that does not parse\<close>

text \<open>
  C8. When the identifier in the path is not one that \<^verbatim>\<open>uuid.Parse\<close> accepts, the handlers
  for fetching and for deleting answer 400 with an error of kind \<^verbatim>\<open>BAD_REQUEST\<close>, whatever
  the collection holds and whether or not its driver would fail; they return before any
  call of the repository, so the status is neither 404 nor 500 and the collection is as
  before.
\<close>

theorem malformed_id_is_bad_request:
  assumes "uuid_Parse lib idStr = None"
  shows "TaskHandler_GetByID lib idStr c =
           (\<lparr>Code = 400, Body = Failure (NewBadRequestError ''Invalid task ID format'')\<rparr>, c) \<and>
         TaskHandler_Delete lib idStr c =
           (\<lparr>Code = 400, Body = Failure (NewBadRequestError ''Invalid task ID format'')\<rparr>, c) \<and>
         err_Type (NewBadRequestError ''Invalid task ID format'') = BAD_REQUEST"
  using assms
  by (simp add: TaskHandler_GetByID_def TaskHandler_Delete_def RespondWithError_def
      NewBadRequestError_def)

theorem malformed_id_is_bad_request_witness:
  "TaskHandler_GetByID test_lib ''not-a-uuid'' test_store =
     (\<lparr>Code = 400,
       Body = Failure \<lparr>err_Type = BAD_REQUEST, err_Message = ''Invalid task ID format'',
                       err_Details = None\<rparr>\<rparr>, test_store) \<and>
   TaskHandler_Delete test_lib ''not-a-uuid'' test_store =
     (\<lparr>Code = 400,
       Body = Failure \<lparr>err_Type = BAD_REQUEST, err_Message = ''Invalid task ID format'',
                       err_Details = None\<rparr>\<rparr>, test_store)"
  using malformed_id_is_bad_request [of test_lib "''not-a-uuid''" test_store]
  by (simp add: test_lib_def test_id_text_def NewBadRequestError_def)

section \<open>Update\<close>

text \<open>
  What \<^verbatim>\<open>Update\<close> does once the identifier has parsed and the validator has accepted the
  decoded request: it fetches the task, changes the copy, and writes four fields back.
\<close>

lemma Update_accepted:
  assumes "uuid_Parse lib idStr = Some i"
    and "UpdateTaskRequest_Validate (Unmarshal_UpdateTaskRequest obj) = None"
  shows "TaskHandler_Update lib env idStr (Object obj) c =
    (let req = Unmarshal_UpdateTaskRequest obj in
     if fails c (calls c)
     then (RespondWithError 500 (NewInternalError ''Failed to retrieve task''), tick c)
     else case find (\<lambda>d. ID d = i) (docs c) of
       None \<Rightarrow> (RespondWithError 404 (NewNotFoundError ''Task not found''), tick c)
     | Some task0 \<Rightarrow>
        (let task = task0\<lparr>Title := upd_Title req, Description := upd_Description req,
                          Completed := (case upd_Completed req of None \<Rightarrow> Completed task0
                                        | Some b \<Rightarrow> b),
                          UpdatedAt := Now env\<rparr>;
             c'' = tick (tick (c\<lparr>docs := update_first i (set_fields task) (docs c)\<rparr>))
         in if fails c (Suc (calls c))
            then (RespondWithError 500 (NewInternalError ''Failed to update task''),
                  tick (tick c))
            else if Marshal_rejects lib (GetTaskResponse (ToProto lib task))
            then (RespondWithError 500 (NewInternalError ''Failed to encode response''), c'')
            else (\<lparr>Code = 200,
                   Body = Data (marshal_Message (GetTaskResponse (ToProto lib task)))\<rparr>, c'')))"
  using assms
  by (auto simp: TaskHandler_Update_def Let_def FindByID_eq Update_eq protojson_Marshal_def
      split: option.splits)


lemma Update_docs:
  "docs (snd (TaskHandler_Update lib env idStr body c)) = docs c \<or>
   (\<exists>i task. UpdatedAt task = Now env \<and>
      docs (snd (TaskHandler_Update lib env idStr body c)) =
        update_first i (set_fields task) (docs c))"
proof (cases "uuid_Parse lib idStr")
  case None
  then show ?thesis by (simp add: TaskHandler_Update_def)
next
  case (Some i)
  show ?thesis
  proof (cases body)
    case Unreadable
    with Some show ?thesis by (simp add: TaskHandler_Update_def)
  next
    case Malformed
    with Some show ?thesis by (simp add: TaskHandler_Update_def)
  next
    case (Object obj)
    show ?thesis
    proof (cases "UpdateTaskRequest_Validate (Unmarshal_UpdateTaskRequest obj)")
      case (Some msg)
      with \<open>uuid_Parse lib idStr = Some i\<close> Object show ?thesis
        by (simp add: TaskHandler_Update_def Let_def)
    next
      case None
      note eq = Update_accepted [OF \<open>uuid_Parse lib idStr = Some i\<close> None, of env c]
      show ?thesis
      proof (cases "find (\<lambda>d. ID d = i) (docs c)")
        case None
        then show ?thesis unfolding Object eq by (simp add: Let_def)
      next
        case (Some task0)
        define task where "task = task0\<lparr>Title := upd_Title (Unmarshal_UpdateTaskRequest obj),
            Description := upd_Description (Unmarshal_UpdateTaskRequest obj),
            Completed := (case upd_Completed (Unmarshal_UpdateTaskRequest obj) of
                            None \<Rightarrow> Completed task0 | Some b \<Rightarrow> b),
            UpdatedAt := Now env\<rparr>"
        have "UpdatedAt task = Now env"
          by (simp add: task_def)
        moreover have "docs (snd (TaskHandler_Update lib env idStr body c)) = docs c \<or>
            docs (snd (TaskHandler_Update lib env idStr body c)) =
              update_first i (set_fields task) (docs c)"
          unfolding Object eq using Some by (simp add: Let_def task_def)
        ultimately show ?thesis by blast
      qed
    qed
  qed
qed

lemma Update_stored:
  assumes "uuid_Parse lib idStr = Some i"
    and "find (\<lambda>d. ID d = i) (docs c) = Some old"
    and "req = Unmarshal_UpdateTaskRequest obj"
    and "1 \<le> length (upd_Title req)" and "length (upd_Title req) \<le> 100"
    and "length (upd_Description req) \<le> 500"
    and "\<not> fails c (calls c)" and "\<not> fails c (Suc (calls c))"
  shows "find (\<lambda>d. ID d = i) (docs (snd (TaskHandler_Update lib env idStr (Object obj) c))) =
         Some (old\<lparr>Title := upd_Title req, Description := upd_Description req,
                   Completed := (case upd_Completed req of None \<Rightarrow> Completed old | Some b \<Rightarrow> b),
                   UpdatedAt := Now env\<rparr>)"
proof -
  have ok: "UpdateTaskRequest_Validate (Unmarshal_UpdateTaskRequest obj) = None"
    using assms(3-6) by (simp add: UpdateTaskRequest_Validate_def validation_error_None_iff)
  show ?thesis
    unfolding Update_accepted [OF assms(1) ok]
    using assms(2,3,7,8) find_update_first [OF assms(2)]
    by (simp add: Let_def set_fields_def)
qed

text \<open>
  C7. An update never changes the identifier or \<^verbatim>\<open>createdAt\<close> of a stored task: after
  \<^verbatim>\<open>Update\<close> of the repository, and after the \<^verbatim>\<open>Update\<close> handler whatever it was given, the
  collection holds as many documents as before, and at each position the identifier and
  \<^verbatim>\<open>createdAt\<close> are the ones that were there. The four other fields are all that can differ.
\<close>

theorem Update_keeps_id_and_createdAt:
  "map ID (docs (snd (MongoTaskRepository_Update c i task))) = map ID (docs c) \<and>
   map CreatedAt (docs (snd (MongoTaskRepository_Update c i task))) = map CreatedAt (docs c) \<and>
   map ID (docs (snd (TaskHandler_Update lib env idStr body c))) = map ID (docs c) \<and>
   map CreatedAt (docs (snd (TaskHandler_Update lib env idStr body c))) = map CreatedAt (docs c)"
proof -
  have "map ID (docs (snd (MongoTaskRepository_Update c i task))) = map ID (docs c)"
    by (simp add: Update_eq map_ID_update_first)
  moreover
  have "map CreatedAt (docs (snd (MongoTaskRepository_Update c i task))) = map CreatedAt (docs c)"
    by (simp add: Update_eq map_CreatedAt_update_first)
  moreover
  have "map ID (docs (snd (TaskHandler_Update lib env idStr body c))) = map ID (docs c)"
    using Update_docs [of lib env idStr body c] by (auto simp: map_ID_update_first)
  moreover
  have "map CreatedAt (docs (snd (TaskHandler_Update lib env idStr body c))) =
        map CreatedAt (docs c)"
    using Update_docs [of lib env idStr body c] by (auto simp: map_CreatedAt_update_first)
  ultimately show ?thesis by simp
qed

theorem Update_keeps_id_and_createdAt_witness:
  "map ID (docs (snd (TaskHandler_Update test_lib test_env test_id_text update_body test_store))) =
     [test_id] \<and>
   map CreatedAt
     (docs (snd (TaskHandler_Update test_lib test_env test_id_text update_body test_store))) =
     [1234567890] \<and>
   map UpdatedAt
     (docs (snd (TaskHandler_Update test_lib test_env test_id_text update_body test_store))) =
     [1763028000]"
proof -
  have "docs (snd (TaskHandler_Update test_lib test_env test_id_text update_body test_store)) =
        [test_task\<lparr>Title := ''Task to Complete'', Description := ''Description'',
                    Completed := True, UpdatedAt := 1763028000\<rparr>]"
    by (simp add: Update_accepted [where i = test_id] update_body_def test_lib_def
        test_store_def test_env_def test_task_def never_fails_def Let_def set_fields_def
        UpdateTaskRequest_Validate_def validation_error_None_iff
        Unmarshal_UpdateTaskRequest_def string_field_def)
  then show ?thesis
    using Update_keeps_id_and_createdAt
      [of test_store test_id test_task test_lib test_env test_id_text update_body]
    by (simp add: test_store_def test_task_def)
qed

text \<open>
  C4. For a stored task and an update request that the validator accepts, when both calls
  of the repository go through: the stored task afterwards has the \<^verbatim>\<open>completed\<close> it had
  before if the request has no \<^verbatim>\<open>completed\<close>, and \<^verbatim>\<open>completed\<close> true if the request says
  true; its \<^verbatim>\<open>updatedAt\<close> is the reading of the clock, which is not before the former
  \<^verbatim>\<open>updatedAt\<close> when the clock has not gone back since.
\<close>

theorem Update_completed_and_updatedAt:
  assumes "uuid_Parse lib idStr = Some i"
    and "find (\<lambda>d. ID d = i) (docs c) = Some old"
    and "req = Unmarshal_UpdateTaskRequest obj"
    and "1 \<le> length (upd_Title req)" and "length (upd_Title req) \<le> 100"
    and "length (upd_Description req) \<le> 500"
    and "\<not> fails c (calls c)" and "\<not> fails c (Suc (calls c))"
    and "UpdatedAt old \<le> Now env"
  shows "\<exists>new. find (\<lambda>d. ID d = i)
                 (docs (snd (TaskHandler_Update lib env idStr (Object obj) c))) = Some new \<and>
           (upd_Completed req = None \<longrightarrow> Completed new = Completed old) \<and>
           (upd_Completed req = Some True \<longrightarrow> Completed new = True) \<and>
           UpdatedAt new = Now env \<and> UpdatedAt old \<le> UpdatedAt new"
  using Update_stored [OF assms(1-8), of env] assms(9) by auto

theorem Update_completed_and_updatedAt_witness:
  "(\<exists>new. find (\<lambda>d. ID d = test_id)
            (docs (snd (TaskHandler_Update test_lib test_env test_id_text update_body
                          test_store))) = Some new \<and>
      Completed new = True \<and> UpdatedAt new = 1763028000 \<and> 1234567890 \<le> UpdatedAt new) \<and>
   (\<exists>new. find (\<lambda>d. ID d = test_id)
            (docs (snd (TaskHandler_Update test_lib test_env test_id_text
                          (Object \<lparr>json_title = Some ''Updated Title'',
                                   json_description = Some ''Updated Description'',
                                   json_completed = None\<rparr>)
                          test_store))) = Some new \<and>
      Completed new = False \<and> UpdatedAt new = 1763028000 \<and> 1234567890 \<le> UpdatedAt new)"
  using
    Update_completed_and_updatedAt [where lib = test_lib and env = test_env
      and idStr = test_id_text and i = test_id and c = test_store and old = test_task
      and obj = "\<lparr>json_title = Some ''Task to Complete'', json_description = Some ''Description'',
                  json_completed = Some True\<rparr>", OF _ _ refl]
    Update_completed_and_updatedAt [where lib = test_lib and env = test_env
      and idStr = test_id_text and i = test_id and c = test_store and old = test_task
      and obj = "\<lparr>json_title = Some ''Updated Title'',
                  json_description = Some ''Updated Description'', json_completed = None\<rparr>",
      OF _ _ refl]
  by (simp add: update_body_def test_lib_def test_store_def test_env_def test_task_def
      never_fails_def Unmarshal_UpdateTaskRequest_def string_field_def)

text \<open>
  C10. With an identifier that parses: when the validator accepts the decoded request,
  the task is stored and both calls of the repository go through, the stored title and
  description afterwards are the decoded ones, so a body without \<^verbatim>\<open>description\<close>, which
  decodes to the empty string, leaves the stored description empty; and a body without
  \<^verbatim>\<open>title\<close> is answered with 400 and kind \<^verbatim>\<open>VALIDATION_ERROR\<close>, the collection left as it
  was.
\<close>

theorem Update_overwrites_title_and_description:
  assumes "uuid_Parse lib idStr = Some i"
    and "req = Unmarshal_UpdateTaskRequest obj"
  shows "(1 \<le> length (upd_Title req) \<and> length (upd_Title req) \<le> 100 \<and>
          length (upd_Description req) \<le> 500 \<and>
          find (\<lambda>d. ID d = i) (docs c) = Some old \<and>
          \<not> fails c (calls c) \<and> \<not> fails c (Suc (calls c)) \<longrightarrow>
          (\<exists>new. find (\<lambda>d. ID d = i)
                   (docs (snd (TaskHandler_Update lib env idStr (Object obj) c))) = Some new \<and>
             Title new = upd_Title req \<and> Description new = upd_Description req \<and>
             (json_description obj = None \<longrightarrow> Description new = []))) \<and>
         (json_title obj = None \<longrightarrow>
          (\<exists>e. TaskHandler_Update lib env idStr (Object obj) c =
                  (\<lparr>Code = 400, Body = Failure e\<rparr>, c) \<and>
                err_Type e = VALIDATION_ERROR))"
proof (intro conjI impI)
  assume h: "1 \<le> length (upd_Title req) \<and> length (upd_Title req) \<le> 100 \<and>
          length (upd_Description req) \<le> 500 \<and>
          find (\<lambda>d. ID d = i) (docs c) = Some old \<and>
          \<not> fails c (calls c) \<and> \<not> fails c (Suc (calls c))"
  have "upd_Description req = string_field (json_description obj)"
    using assms(2) by (simp add: Unmarshal_UpdateTaskRequest_def)
  then have "json_description obj = None \<longrightarrow> upd_Description req = []"
    by (simp add: string_field_def)
  then show "\<exists>new. find (\<lambda>d. ID d = i)
                   (docs (snd (TaskHandler_Update lib env idStr (Object obj) c))) = Some new \<and>
             Title new = upd_Title req \<and> Description new = upd_Description req \<and>
             (json_description obj = None \<longrightarrow> Description new = [])"
    using Update_stored [OF assms(1) _ assms(2), of c old env] h by simp
next
  assume "json_title obj = None"
  then have "upd_Title req = []"
    using assms(2) by (simp add: Unmarshal_UpdateTaskRequest_def string_field_def)
  then have "UpdateTaskRequest_Validate req \<noteq> None"
    by (simp add: UpdateTaskRequest_Validate_def validation_error_None_iff)
  then obtain msg where "UpdateTaskRequest_Validate req = Some msg" by auto
  then have "TaskHandler_Update lib env idStr (Object obj) c =
      (\<lparr>Code = 400, Body = Failure (convertValidationError msg)\<rparr>, c)"
    using assms by (simp add: TaskHandler_Update_def Let_def RespondWithError_def)
  then show "\<exists>e. TaskHandler_Update lib env idStr (Object obj) c =
                  (\<lparr>Code = 400, Body = Failure e\<rparr>, c) \<and> err_Type e = VALIDATION_ERROR"
    using convertValidationError_Type [of msg] by simp
qed

theorem Update_overwrites_title_and_description_witness:
  "(\<exists>new. find (\<lambda>d. ID d = test_id)
            (docs (snd (TaskHandler_Update test_lib test_env test_id_text
                          (Object \<lparr>json_title = Some ''T'', json_description = None,
                                   json_completed = None\<rparr>)
                          test_store))) = Some new \<and>
      Title new = ''T'' \<and> Description new = []) \<and>
   (\<exists>e. TaskHandler_Update test_lib test_env test_id_text
           (Object \<lparr>json_title = None, json_description = Some ''d'', json_completed = None\<rparr>)
           test_store = (\<lparr>Code = 400, Body = Failure e\<rparr>, test_store) \<and>
        err_Type e = VALIDATION_ERROR)"
  using
    Update_overwrites_title_and_description [where lib = test_lib and env = test_env
      and idStr = test_id_text and i = test_id and c = test_store and old = test_task
      and obj = "\<lparr>json_title = Some ''T'', json_description = None, json_completed = None\<rparr>",
      OF _ refl]
    Update_overwrites_title_and_description [where lib = test_lib and env = test_env
      and idStr = test_id_text and i = test_id and c = test_store and old = test_task
      and obj = "\<lparr>json_title = None, json_description = Some ''d'', json_completed = None\<rparr>",
      OF _ refl]
  by (simp add: test_lib_def test_store_def test_env_def test_task_def
      never_fails_def Unmarshal_UpdateTaskRequest_def string_field_def)

section \<open>Create, then fetch\<close>

lemma GetByID_parsed:
  assumes "uuid_Parse lib idStr = Some i"
  shows "TaskHandler_GetByID lib idStr c =
    (if fails c (calls c)
     then (RespondWithError 500 (NewInternalError ''Failed to retrieve task''), tick c)
     else case find (\<lambda>d. ID d = i) (docs c) of
       None \<Rightarrow> (RespondWithError 404 (NewNotFoundError ''Task not found''), tick c)
     | Some taskDb \<Rightarrow>
         if Marshal_rejects lib (GetTaskResponse (ToProto lib taskDb))
         then (RespondWithError 500 (NewInternalError ''Failed to encode response''), tick c)
         else (\<lparr>Code = 200,
                Body = Data (marshal_Message (GetTaskResponse (ToProto lib taskDb)))\<rparr>, tick c))"
  using assms
  by (simp add: TaskHandler_GetByID_def FindByID_eq protojson_Marshal_def split: option.splits)

text \<open>
  C5. After a create request that the validator accepts, fetching by the identifier that
  the create response carries returns 200 with the very body the create response had: the
  encoding of the wire form of the stored task, whose title and description are those of
  the request, whose \<^verbatim>\<open>completed\<close> is false and whose \<^verbatim>\<open>updatedAt\<close> is the reading of the
  clock at creation. This is the case where both calls of the repository go through, the
  new identifier is not yet stored, the response can be encoded, and \<^verbatim>\<open>uuid.Parse\<close> reads
  the text of the new identifier back.
\<close>

theorem Create_then_GetByID:
  assumes "req = Unmarshal_CreateTaskRequest obj"
    and "1 \<le> length (req_Title req)" and "length (req_Title req) \<le> 100"
    and "length (req_Description req) \<le> 500"
    and "task = \<lparr>ID = NewUUID env, Title = req_Title req, Description = req_Description req,
                  Completed = False, CreatedAt = Now env, UpdatedAt = Now env\<rparr>"
    and "\<not> fails c (calls c)" and "\<not> fails c (Suc (calls c))"
    and "\<forall>d\<in>set (docs c). ID d \<noteq> NewUUID env"
    and "\<not> Marshal_rejects lib (GetTaskResponse (ToProto lib task))"
    and "uuid_Parse lib (pb_Id (ToProto lib task)) = Some (NewUUID env)"
    and "TaskHandler_Create lib env (Object obj) c = (created, ca)"
    and "TaskHandler_GetByID lib (pb_Id (ToProto lib task)) ca = (fetched, cb)"
  shows "created = \<lparr>Code = 201,
                    Body = Data (marshal_Message (GetTaskResponse (ToProto lib task)))\<rparr> \<and>
         fetched = \<lparr>Code = 200,
                    Body = Data (marshal_Message (GetTaskResponse (ToProto lib task)))\<rparr> \<and>
         pb_Title (ToProto lib task) = req_Title req \<and>
         pb_Description (ToProto lib task) = req_Description req \<and>
         pb_Completed (ToProto lib task) = False \<and>
         pb_UpdatedAt (ToProto lib task) = timestamppb_New_Unix (Now env)"
proof -
  have ok: "CreateTaskRequest_Validate (Unmarshal_CreateTaskRequest obj) = None"
    using assms(1-4) by (simp add: CreateTaskRequest_Validate_def validation_error_None_iff)
  have nf: "find (\<lambda>d. ID d = NewUUID env) (docs c) = None"
    using assms(8) by (simp add: find_None_iff_all)
  have cr: "TaskHandler_Create lib env (Object obj) c =
           (\<lparr>Code = 201, Body = Data (marshal_Message (GetTaskResponse (ToProto lib task)))\<rparr>,
            tick (c\<lparr>docs := docs c @ [task]\<rparr>))"
    using assms(1,5,6,9) nf by (simp add: Create_accepted [OF ok] Let_def)
  with assms(11) have created: "created = \<lparr>Code = 201,
        Body = Data (marshal_Message (GetTaskResponse (ToProto lib task)))\<rparr>"
    and ca: "ca = tick (c\<lparr>docs := docs c @ [task]\<rparr>)"
    by simp_all
  have stored: "find (\<lambda>d. ID d = NewUUID env) (docs ca) = Some task"
    using find_append_new [of task "docs c"] nf assms(5) ca by simp
  have up: "\<not> fails ca (calls ca)"
    using assms(7) ca by simp
  have "TaskHandler_GetByID lib (pb_Id (ToProto lib task)) ca =
        (\<lparr>Code = 200, Body = Data (marshal_Message (GetTaskResponse (ToProto lib task)))\<rparr>,
         tick ca)"
    using stored up assms(9) by (simp add: GetByID_parsed [OF assms(10)])
  with assms(12) have fetched: "fetched = \<lparr>Code = 200,
        Body = Data (marshal_Message (GetTaskResponse (ToProto lib task)))\<rparr>"
    by simp
  have "pb_Title (ToProto lib task) = req_Title req \<and>
         pb_Description (ToProto lib task) = req_Description req \<and>
         pb_Completed (ToProto lib task) = False \<and>
         pb_UpdatedAt (ToProto lib task) = timestamppb_New_Unix (Now env)"
    using assms(5) by (simp add: ToProto_def)
  with created fetched show ?thesis by simp
qed

theorem Create_then_GetByID_witness:
  "TaskHandler_Create test_lib test_env create_body empty_store =
     (\<lparr>Code = 201,
       Body = Data (JObject [(''task'', JObject
                [(''id'', JString test_id_text), (''title'', JString ''New Task''),
                 (''description'', JString ''New Description''),
                 (''createdAt'', JTimestamp 1763028000 0),
                 (''updatedAt'', JTimestamp 1763028000 0)])])\<rparr>,
      \<lparr>docs = [\<lparr>ID = test_id, Title = ''New Task'', Description = ''New Description'',
                Completed = False, CreatedAt = 1763028000, UpdatedAt = 1763028000\<rparr>],
       calls = 1, fails = never_fails\<rparr>) \<and>
   fst (TaskHandler_GetByID test_lib test_id_text
      \<lparr>docs = [\<lparr>ID = test_id, Title = ''New Task'', Description = ''New Description'',
                Completed = False, CreatedAt = 1763028000, UpdatedAt = 1763028000\<rparr>],
       calls = 1, fails = never_fails\<rparr>) =
     \<lparr>Code = 200,
       Body = Data (JObject [(''task'', JObject
                [(''id'', JString test_id_text), (''title'', JString ''New Task''),
                 (''description'', JString ''New Description''),
                 (''createdAt'', JTimestamp 1763028000 0),
                 (''updatedAt'', JTimestamp 1763028000 0)])])\<rparr>"
proof -
  let ?obj = "\<lparr>json_title = Some ''New Task'', json_description = Some ''New Description''\<rparr>"
  let ?task = "\<lparr>ID = test_id, Title = ''New Task'', Description = ''New Description'',
                Completed = False, CreatedAt = 1763028000, UpdatedAt = 1763028000\<rparr>"
  let ?c1 = "\<lparr>docs = [?task], calls = 1, fails = never_fails\<rparr>"
  have id: "pb_Id (ToProto test_lib ?task) = test_id_text"
    by (simp add: ToProto_def test_lib_def)
  have cr: "TaskHandler_Create test_lib test_env (Object ?obj) empty_store =
      (\<lparr>Code = 201, Body = Data (marshal_Message (GetTaskResponse (ToProto test_lib ?task)))\<rparr>,
       ?c1)"
    by (simp add: Create_accepted CreateTaskRequest_Validate_def validation_error_None_iff
        Unmarshal_CreateTaskRequest_def string_field_def empty_store_def test_env_def
        test_lib_def never_fails_def Let_def tick_def)
  have req: "Unmarshal_CreateTaskRequest ?obj =
      \<lparr>req_Title = ''New Task'', req_Description = ''New Description''\<rparr>"
    by (simp add: Unmarshal_CreateTaskRequest_def string_field_def)
  have task: "?task = \<lparr>ID = NewUUID test_env,
      Title = req_Title (Unmarshal_CreateTaskRequest ?obj),
      Description = req_Description (Unmarshal_CreateTaskRequest ?obj),
      Completed = False, CreatedAt = Now test_env, UpdatedAt = Now test_env\<rparr>"
    by (simp add: req test_env_def)
  have parse: "uuid_Parse test_lib (pb_Id (ToProto test_lib ?task)) = Some (NewUUID test_env)"
    by (simp add: id) (simp add: test_lib_def test_env_def)
  have get: "TaskHandler_GetByID test_lib (pb_Id (ToProto test_lib ?task)) ?c1 =
      (fst (TaskHandler_GetByID test_lib test_id_text ?c1),
       snd (TaskHandler_GetByID test_lib test_id_text ?c1))"
    by (simp add: id)
  have "fst (TaskHandler_GetByID test_lib test_id_text ?c1) =
          \<lparr>Code = 200,
           Body = Data (marshal_Message (GetTaskResponse (ToProto test_lib ?task)))\<rparr>"
    using Create_then_GetByID [where lib = test_lib and env = test_env and c = empty_store
        and obj = ?obj and task = ?task, OF refl _ _ _ task _ _ _ _ parse cr get]
    by (simp add: req empty_store_def never_fails_def) (simp add: test_lib_def)
  then show ?thesis
    using cr
    by (simp add: create_body_def ToProto_def marshal_Message_def marshal_Task_def
        timestamppb_New_Unix_def test_lib_def test_id_text_def)
qed

section \<open>The list of an empty collection\<close>

text \<open>
  C9, as stated, fails: the list of an empty collection is answered with 200, but the body
  is the empty JSON object. An empty repeated field is not populated, and the encoder
  leaves it out, so the body has no member \<^verbatim>\<open>tasks\<close>.
\<close>

theorem GetAll_empty_store_omits_tasks:
  "TaskHandler_GetAll test_lib empty_store =
     (\<lparr>Code = 200, Body = Data (JObject [])\<rparr>, \<lparr>docs = [], calls = 2, fails = never_fails\<rparr>) \<and>
   member (JObject []) ''tasks'' = None"
  by (simp add: TaskHandler_GetAll_def FindAll_eq empty_store_def never_fails_def test_lib_def
      helpers_Map_def protojson_Marshal_def marshal_Message_def member_def tick_def)

text \<open>
  C9, amended. When the collection holds no task, both calls of the driver go through and
  the response can be encoded, the list handler answers 200 and its body is the encoding
  of a list response with an empty sequence of tasks; that encoding is the empty JSON
  object, in which the member \<^verbatim>\<open>tasks\<close> is absent.
\<close>

theorem GetAll_empty_store:
  assumes "docs c = []"
    and "\<not> fails c (calls c)" and "\<not> fails c (Suc (calls c))"
    and "\<not> Marshal_rejects lib (ListTasksResponse [])"
  shows "TaskHandler_GetAll lib c =
           (\<lparr>Code = 200, Body = Data (marshal_Message (ListTasksResponse []))\<rparr>, tick (tick c)) \<and>
         marshal_Message (ListTasksResponse []) = JObject [] \<and>
         member (JObject []) ''tasks'' = None"
  using assms
  by (simp add: TaskHandler_GetAll_def FindAll_eq helpers_Map_def protojson_Marshal_def
      marshal_Message_def member_def)

theorem GetAll_empty_store_witness:
  "TaskHandler_GetAll test_lib empty_store =
     (\<lparr>Code = 200, Body = Data (marshal_Message (ListTasksResponse []))\<rparr>,
      tick (tick empty_store)) \<and>
   marshal_Message (ListTasksResponse []) = JObject []"
  using GetAll_empty_store [of empty_store test_lib]
  by (simp add: empty_store_def never_fails_def test_lib_def)

section \<open>Runs of requests\<close>

lemma set_update_first:
  "d' \<in> set (update_first i f ds) \<Longrightarrow> d' \<in> set ds \<or> (\<exists>d\<in>set ds. d' = f d)"
  by (induction ds) (auto split: if_splits)

lemma set_delete_first: "d \<in> set (delete_first i ds) \<Longrightarrow> d \<in> set ds"
  by (induction ds) (auto split: if_splits)

lemma GetAll_docs: "docs (snd (TaskHandler_GetAll lib c)) = docs c"
  by (simp add: TaskHandler_GetAll_def FindAll_eq split: option.splits)

lemma GetByID_docs: "docs (snd (TaskHandler_GetByID lib idStr c)) = docs c"
  by (simp add: TaskHandler_GetByID_def FindByID_eq split: option.splits)

lemma Delete_docs:
  "docs (snd (TaskHandler_Delete lib idStr c)) = docs c \<or>
   (\<exists>i. docs (snd (TaskHandler_Delete lib idStr c)) = delete_first i (docs c))"
  by (auto simp: TaskHandler_Delete_def Delete_eq split: option.splits)

lemma Create_docs:
  "docs (snd (TaskHandler_Create lib env body c)) = docs c \<or>
   (\<exists>t. CreatedAt t = Now env \<and> UpdatedAt t = Now env \<and>
      docs (snd (TaskHandler_Create lib env body c)) = docs c @ [t])"
proof (cases body)
  case Unreadable
  then show ?thesis by (simp add: TaskHandler_Create_def)
next
  case Malformed
  then show ?thesis by (simp add: TaskHandler_Create_def)
next
  case (Object obj)
  show ?thesis
  proof (cases "CreateTaskRequest_Validate (Unmarshal_CreateTaskRequest obj)")
    case (Some msg)
    with Object show ?thesis by (simp add: TaskHandler_Create_def Let_def)
  next
    case None
    define t where "t = \<lparr>ID = NewUUID env,
        Title = req_Title (Unmarshal_CreateTaskRequest obj),
        Description = req_Description (Unmarshal_CreateTaskRequest obj),
        Completed = False, CreatedAt = Now env, UpdatedAt = Now env\<rparr>"
    have "CreatedAt t = Now env \<and> UpdatedAt t = Now env"
      by (simp add: t_def)
    moreover have "docs (snd (TaskHandler_Create lib env body c)) = docs c \<or>
        docs (snd (TaskHandler_Create lib env body c)) = docs c @ [t]"
      unfolding Object Create_accepted [OF None] by (simp add: Let_def t_def)
    ultimately show ?thesis by blast
  qed
qed

text \<open>
  One request keeps the invariant: every stored task was created no later than it was
  last updated, and last updated no later than the latest reading of the clock.
\<close>

lemma serve_invariant:
  assumes inv: "\<forall>d\<in>set (docs c). CreatedAt d \<le> UpdatedAt d \<and> UpdatedAt d \<le> t"
    and clock: "t \<le> Now env"
  shows "\<forall>d\<in>set (docs (snd (serve lib env r c))).
           CreatedAt d \<le> UpdatedAt d \<and> UpdatedAt d \<le> Now env"
proof (cases r)
  case GET_tasks
  with inv clock show ?thesis by (fastforce simp: GetAll_docs)
next
  case (POST_tasks body)
  from Create_docs [of lib env body c] inv clock show ?thesis
    unfolding POST_tasks by (fastforce simp del: One_nat_def)
next
  case (GET_task idStr)
  with inv clock show ?thesis by (fastforce simp: GetByID_docs)
next
  case (PUT_task idStr body)
  from Update_docs [of lib env idStr body c]
  show ?thesis
  proof
    assume "docs (snd (TaskHandler_Update lib env idStr body c)) = docs c"
    with inv clock show ?thesis unfolding PUT_task by fastforce
  next
    assume "\<exists>i task. UpdatedAt task = Now env \<and>
      docs (snd (TaskHandler_Update lib env idStr body c)) =
        update_first i (set_fields task) (docs c)"
    then obtain i task where now: "UpdatedAt task = Now env"
      and eq: "docs (snd (TaskHandler_Update lib env idStr body c)) =
        update_first i (set_fields task) (docs c)"
      by blast
    show ?thesis
      unfolding PUT_task serve.simps eq
    proof
      fix d' assume "d' \<in> set (update_first i (set_fields task) (docs c))"
      then consider "d' \<in> set (docs c)" | d where "d \<in> set (docs c)" "d' = set_fields task d"
        using set_update_first by blast
      then show "CreatedAt d' \<le> UpdatedAt d' \<and> UpdatedAt d' \<le> Now env"
      proof cases
        case 1
        with inv clock show ?thesis by fastforce
      next
        case 2
        with inv clock now show ?thesis by (fastforce simp: set_fields_def)
      qed
    qed
  qed
next
  case (DELETE_task idStr)
  from Delete_docs [of lib idStr c] inv clock show ?thesis
    unfolding DELETE_task by (fastforce dest: set_delete_first)
qed

lemma run_invariant:
  assumes "sorted (map (\<lambda>x. Now (fst x)) rs)"
    and "\<forall>x\<in>set rs. t \<le> Now (fst x)"
    and "\<forall>d\<in>set (docs c). CreatedAt d \<le> UpdatedAt d \<and> UpdatedAt d \<le> t"
  shows "\<forall>d\<in>set (docs (run lib rs c)). CreatedAt d \<le> UpdatedAt d"
  using assms
proof (induction rs arbitrary: c t)
  case Nil
  then show ?case by simp
next
  case (Cons x rs)
  obtain env r where x: "x = (env, r)" by (cases x)
  have step: "\<forall>d\<in>set (docs (snd (serve lib env r c))).
      CreatedAt d \<le> UpdatedAt d \<and> UpdatedAt d \<le> Now env"
    using serve_invariant [OF Cons.prems(3), of env lib r] Cons.prems(2) x by simp
  have "sorted (map (\<lambda>x. Now (fst x)) rs)" and "\<forall>y\<in>set rs. Now env \<le> Now (fst y)"
    using Cons.prems(1) x by simp_all
  from Cons.IH [OF this step] show ?case
    by (simp add: x)
qed

text \<open>
  C6. Start from a collection without documents and serve any list of requests, the clock
  never going back from one request to the next. Every task that is stored at the end has
  a \<^verbatim>\<open>createdAt\<close> that is not after its \<^verbatim>\<open>updatedAt\<close>.
\<close>

theorem createdAt_le_updatedAt:
  assumes "docs c = []"
    and "sorted (map (\<lambda>x. Now (fst x)) rs)"
  shows "\<forall>d\<in>set (docs (run lib rs c)). CreatedAt d \<le> UpdatedAt d"
proof (cases rs)
  case Nil
  with assms(1) show ?thesis by simp
next
  case (Cons x xs)
  have "\<forall>y\<in>set rs. Now (fst x) \<le> Now (fst y)"
    using assms(2) Cons by auto
  moreover have "\<forall>d\<in>set (docs c). CreatedAt d \<le> UpdatedAt d \<and> UpdatedAt d \<le> Now (fst x)"
    using assms(1) by simp
  ultimately show ?thesis
    using run_invariant [OF assms(2)] by blast
qed

theorem createdAt_le_updatedAt_witness:
  "docs (run test_lib
     [(\<lparr>Now = 1763028000, NewUUID = test_id\<rparr>, POST_tasks create_body),
      (\<lparr>Now = 1763028060, NewUUID = 7\<rparr>, PUT_task test_id_text update_body),
      (\<lparr>Now = 1763028060, NewUUID = 7\<rparr>, POST_tasks create_body),
      (\<lparr>Now = 1763028120, NewUUID = 8\<rparr>, DELETE_task ''not-a-uuid'')] empty_store) =
     [\<lparr>ID = test_id, Title = ''Task to Complete'', Description = ''Description'',
       Completed = True, CreatedAt = 1763028000, UpdatedAt = 1763028060\<rparr>,
      \<lparr>ID = 7, Title = ''New Task'', Description = ''New Description'',
       Completed = False, CreatedAt = 1763028060, UpdatedAt = 1763028060\<rparr>] \<and>
   list_all (\<lambda>d. CreatedAt d \<le> UpdatedAt d)
     (docs (run test_lib
       [(\<lparr>Now = 1763028000, NewUUID = test_id\<rparr>, POST_tasks create_body),
        (\<lparr>Now = 1763028060, NewUUID = 7\<rparr>, PUT_task test_id_text update_body),
        (\<lparr>Now = 1763028060, NewUUID = 7\<rparr>, POST_tasks create_body),
        (\<lparr>Now = 1763028120, NewUUID = 8\<rparr>, DELETE_task ''not-a-uuid'')] empty_store))"
proof -
  let ?rs = "[(\<lparr>Now = 1763028000, NewUUID = test_id\<rparr>, POST_tasks create_body),
      (\<lparr>Now = 1763028060, NewUUID = 7\<rparr>, PUT_task test_id_text update_body),
      (\<lparr>Now = 1763028060, NewUUID = 7\<rparr>, POST_tasks create_body),
      (\<lparr>Now = 1763028120, NewUUID = 8\<rparr>, DELETE_task ''not-a-uuid'')]"
  have "docs (run test_lib ?rs empty_store) =
     [\<lparr>ID = test_id, Title = ''Task to Complete'', Description = ''Description'',
       Completed = True, CreatedAt = 1763028000, UpdatedAt = 1763028060\<rparr>,
      \<lparr>ID = 7, Title = ''New Task'', Description = ''New Description'',
       Completed = False, CreatedAt = 1763028060, UpdatedAt = 1763028060\<rparr>]"
    by (simp add: create_body_def update_body_def empty_store_def never_fails_def test_lib_def
        test_id_def test_id_text_def
        Create_accepted Update_accepted [where i = test_id] TaskHandler_Delete_def
        CreateTaskRequest_Validate_def UpdateTaskRequest_Validate_def validation_error_None_iff
        Unmarshal_CreateTaskRequest_def Unmarshal_UpdateTaskRequest_def string_field_def
        Let_def set_fields_def tick_def)
  moreover have "\<forall>d\<in>set (docs (run test_lib ?rs empty_store)). CreatedAt d \<le> UpdatedAt d"
    using createdAt_le_updatedAt [of empty_store ?rs test_lib]
    by (simp add: empty_store_def)
  ultimately show ?thesis
    by (simp add: list_all_iff)
qed


end
